theory Spec2Isabelle
  imports Complex_Main
begin

section \<open>kenpom.py: the table-row extractor and the team builder\<close>

text \<open>
  The module has two parts. \<^verbatim>\<open>KenPomParser\<close> is an \<^verbatim>\<open>HTMLParser\<close> subclass whose three
  handlers collect the text of every \<^verbatim>\<open>tr\<close> element; \<^verbatim>\<open>_create_teams\<close> turns the collected
  rows into \<^verbatim>\<open>Team\<close> objects stored in a dictionary by team name.

  Python exceptions are values of the type \<open>error\<close>; a function that can raise returns
  \<open>error + 'a\<close>, with \<open>Inl\<close> for the exception. A Python \<^verbatim>\<open>str\<close> is a \<open>string\<close>; a character
  outside ASCII stands as the bytes of its UTF-8 encoding.
\<close>

datatype error = ValueError | TypeError

definition bind :: "error + 'a \<Rightarrow> ('a \<Rightarrow> error + 'b) \<Rightarrow> error + 'b" where
  "bind m f = (case m of Inl e \<Rightarrow> Inl e | Inr x \<Rightarrow> f x)"

subsection \<open>The Python built-ins the module calls\<close>

text \<open>
  \<^verbatim>\<open>str.split(sep)\<close> with a one-character separator: the string is cut at every occurrence
  of the separator, so the result has one more element than the string has separators.
\<close>

fun str_split :: "char \<Rightarrow> string \<Rightarrow> string list" where
  "str_split sep [] = [[]]"
| "str_split sep (c # cs) =
     (if c = sep then [] # str_split sep cs
      else (c # hd (str_split sep cs)) # tl (str_split sep cs))"

text \<open>
  The assignment \<^verbatim>\<open>a, b = xs\<close> raises \<^verbatim>\<open>ValueError\<close> unless \<^verbatim>\<open>xs\<close> has exactly two
  elements.
\<close>

definition unpack2 :: "'a list \<Rightarrow> error + ('a \<times> 'a)" where
  "unpack2 xs = (case xs of [a, b] \<Rightarrow> Inr (a, b) | _ \<Rightarrow> Inl ValueError)"

text \<open>
  \<^verbatim>\<open>sep.join(items)\<close> raises \<^verbatim>\<open>TypeError\<close> when an item is not a \<^verbatim>\<open>str\<close>. The items are
  Python objects, here strings or integers.
\<close>

datatype pyobj = PyStr string | PyInt int

fun str_join :: "string \<Rightarrow> pyobj list \<Rightarrow> error + string" where
  "str_join sep [] = Inr []"
| "str_join sep (PyInt n # xs) = Inl TypeError"
| "str_join sep (PyStr s # xs) =
     (case str_join sep xs of
        Inl e \<Rightarrow> Inl e
      | Inr r \<Rightarrow> Inr (if xs = [] then s else s @ sep @ r))"

text \<open>
  \<^verbatim>\<open>int(s)\<close> and \<^verbatim>\<open>float(s)\<close> on a string. Both first replace every whitespace
  character outside ASCII by a space, then skip the whitespace around the literal, read
  an optional sign, and allow single underscores between digits. The whitespace they
  skip is the space and the codes 9 to 13; the separators 28 to 31, which
  \<^verbatim>\<open>str.isspace\<close> also counts as whitespace, are left in place and make the literal
  malformed. (Python also replaces the decimal digits of other scripts by ASCII digits,
  and CPython 3.11 refuses a literal of more than 4300 digits; the model reads ASCII
  digits of any number.)
\<close>

definition py_isspace :: "char \<Rightarrow> bool" where
  "py_isspace c = (c \<in> set [CHR 0x09, CHR 0x0A, CHR 0x0B, CHR 0x0C, CHR 0x0D, CHR 0x20])"

definition is_ascii :: "char \<Rightarrow> bool" where
  "is_ascii c = (\<not> digit7 c)"

text \<open>
  The whitespace characters outside ASCII, in UTF-8: U+0085, U+00A0, U+1680, U+2000 to
  U+200A, U+2028, U+2029, U+202F, U+205F and U+3000. \<open>space_width s\<close> is the number of
  bytes of such a character at the head of \<open>s\<close>, or 0.
\<close>

definition unicode_spaces :: "string list" where
  "unicode_spaces =
     [[CHR 0xC2, CHR 0x85], [CHR 0xC2, CHR 0xA0], [CHR 0xE1, CHR 0x9A, CHR 0x80],
      [CHR 0xE2, CHR 0x80, CHR 0x80], [CHR 0xE2, CHR 0x80, CHR 0x81],
      [CHR 0xE2, CHR 0x80, CHR 0x82], [CHR 0xE2, CHR 0x80, CHR 0x83],
      [CHR 0xE2, CHR 0x80, CHR 0x84], [CHR 0xE2, CHR 0x80, CHR 0x85],
      [CHR 0xE2, CHR 0x80, CHR 0x86], [CHR 0xE2, CHR 0x80, CHR 0x87],
      [CHR 0xE2, CHR 0x80, CHR 0x88], [CHR 0xE2, CHR 0x80, CHR 0x89],
      [CHR 0xE2, CHR 0x80, CHR 0x8A], [CHR 0xE2, CHR 0x80, CHR 0xA8],
      [CHR 0xE2, CHR 0x80, CHR 0xA9], [CHR 0xE2, CHR 0x80, CHR 0xAF],
      [CHR 0xE2, CHR 0x81, CHR 0x9F], [CHR 0xE3, CHR 0x80, CHR 0x80]]"

definition space_width :: "string \<Rightarrow> nat" where
  "space_width s =
     (case find (\<lambda>p. take (length p) s = p) unicode_spaces of
        None \<Rightarrow> 0
      | Some p \<Rightarrow> length p)"

function space_to_ascii :: "string \<Rightarrow> string" where
  "space_to_ascii [] = []"
| "space_to_ascii (c # cs) =
     (if space_width (c # cs) = 0 then c # space_to_ascii cs
      else CHR '' '' # space_to_ascii (drop (space_width (c # cs) - 1) cs))"
  by pat_completeness auto
termination
  by (relation "measure length") auto

declare space_to_ascii.simps(2) [simp del]

definition strip :: "string \<Rightarrow> string" where
  "strip s = rev (dropWhile py_isspace (rev (dropWhile py_isspace s)))"

text \<open>The text of the literal that \<^verbatim>\<open>int\<close> and \<^verbatim>\<open>float\<close> go on to read.\<close>

definition numeric_text :: "string \<Rightarrow> string" where
  "numeric_text s = strip (space_to_ascii s)"

definition py_isdigit :: "char \<Rightarrow> bool" where
  "py_isdigit c = (c \<in> set ''0123456789'')"

definition digit_value :: "char \<Rightarrow> nat" where
  "digit_value c = of_char c - 48"

definition digits_value :: "string \<Rightarrow> nat" where
  "digits_value ds = foldl (\<lambda>n c. 10 * n + digit_value c) 0 ds"

text \<open>
  The grammar \<^verbatim>\<open>digitpart ::= digit (["_"] digit)*\<close>: the result is the digits with the
  underscores taken out, or \<open>None\<close> when the string is not a digitpart.
\<close>

fun digitpart :: "string \<Rightarrow> string option" where
  "digitpart [] = None"
| "digitpart [c] = (if py_isdigit c then Some [c] else None)"
| "digitpart (c # x # xs) =
     (if py_isdigit c
      then map_option ((#) c) (digitpart (if x = CHR ''_'' then xs else x # xs))
      else None)"

text \<open>An optional sign in front of a literal: whether it is a minus, and the rest.\<close>

definition split_sign :: "string \<Rightarrow> bool \<times> string" where
  "split_sign s =
     (case s of
        [] \<Rightarrow> (False, [])
      | c # cs \<Rightarrow>
          if c = CHR ''-'' then (True, cs)
          else if c = CHR ''+'' then (False, cs)
          else (False, s))"

definition py_int :: "string \<Rightarrow> error + int" where
  "py_int s =
     (case split_sign (numeric_text s) of
        (neg, body) \<Rightarrow>
          (case digitpart body of
             None \<Rightarrow> Inl ValueError
           | Some ds \<Rightarrow> Inr (if neg then - int (digits_value ds) else int (digits_value ds))))"

text \<open>
  A Python \<^verbatim>\<open>float\<close> is held as the number its literal denotes: \<open>Finite q\<close> stands for
  the double that \<^verbatim>\<open>float\<close> rounds the rational \<open>q\<close> to, so two tokens with the same
  \<open>q\<close> give the same double. The rounding itself is not modelled: tokens with different
  \<open>q\<close> may round to one double, a \<open>q\<close> beyond the range of doubles to \<^verbatim>\<open>inf\<close>, a tiny one
  to zero. \<open>Infinite neg\<close> and \<open>NaN\<close> are the values of the literals \<^verbatim>\<open>inf\<close>,
  \<^verbatim>\<open>infinity\<close> and \<^verbatim>\<open>nan\<close>, which \<^verbatim>\<open>float\<close> reads in any letter case.
\<close>

datatype pyfloat = Finite rat | Infinite bool | NaN

definition ascii_lower :: "char \<Rightarrow> char" where
  "ascii_lower c =
     (if c \<in> set ''ABCDEFGHIJKLMNOPQRSTUVWXYZ'' then char_of (of_char c + (32::nat)) else c)"

definition is_exp_char :: "char \<Rightarrow> bool" where
  "is_exp_char c = (c = CHR ''e'' \<or> c = CHR ''E'')"

definition opt_digitpart :: "string \<Rightarrow> string option" where
  "opt_digitpart s = (if s = [] then Some [] else digitpart s)"

text \<open>
  \<^verbatim>\<open>number ::= [digitpart] "." digitpart | digitpart ["."]\<close>: the digits of the number
  and how many of them stand after the point.
\<close>

definition float_mantissa :: "string \<Rightarrow> (string \<times> nat) option" where
  "float_mantissa m =
     (let ip = takeWhile (\<lambda>c. c \<noteq> CHR ''.'') m;
          rest = dropWhile (\<lambda>c. c \<noteq> CHR ''.'') m
      in if rest = [] then map_option (\<lambda>ds. (ds, 0)) (digitpart ip)
         else if ip = [] \<and> tl rest = [] then None
         else (case (opt_digitpart ip, opt_digitpart (tl rest)) of
                 (Some ids, Some fds) \<Rightarrow> Some (ids @ fds, length fds)
               | _ \<Rightarrow> None))"

text \<open>\<^verbatim>\<open>exponent ::= ("e" | "E") ["+" | "-"] digitpart\<close>; no exponent is the exponent 0.\<close>

definition float_exponent :: "string \<Rightarrow> int option" where
  "float_exponent x =
     (if x = [] then Some 0
      else (case split_sign (tl x) of
              (neg, body) \<Rightarrow>
                map_option (\<lambda>ds. if neg then - int (digits_value ds) else int (digits_value ds))
                  (digitpart body)))"

definition float_number :: "string \<Rightarrow> rat option" where
  "float_number s =
     (case (float_mantissa (takeWhile (\<lambda>c. \<not> is_exp_char c) s),
            float_exponent (dropWhile (\<lambda>c. \<not> is_exp_char c) s)) of
        (Some (ds, k), Some ex) \<Rightarrow>
          (let z = ex - int k
           in Some (if 0 \<le> z then of_nat (digits_value ds) * 10 ^ nat z
                    else of_nat (digits_value ds) / 10 ^ nat (- z)))
      | _ \<Rightarrow> None)"

definition py_float :: "string \<Rightarrow> error + pyfloat" where
  "py_float s =
     (case split_sign (numeric_text s) of
        (neg, body) \<Rightarrow>
          (let low = map ascii_lower body
           in if low = ''inf'' \<or> low = ''infinity'' then Inr (Infinite neg)
              else if low = ''nan'' then Inr NaN
              else (case float_number body of
                      None \<Rightarrow> Inl ValueError
                    | Some q \<Rightarrow> Inr (Finite (if neg then - q else q)))))"

subsection \<open>class Team\<close>

record Team =
  rank :: int
  name :: string
  conference :: string
  wins :: int
  losses :: int
  efficiency :: pyfloat
  offense :: pyfloat
  defense :: pyfloat
  tempo :: pyfloat
  luck :: pyfloat
  opponent_efficiency :: pyfloat
  opponent_offense :: pyfloat
  opponent_defense :: pyfloat
  nonconference_opponent_efficiency :: pyfloat

text \<open>The properties of the class, \<^verbatim>\<open>Team.d\<close> to \<^verbatim>\<open>Team.w\<close>, in the order of the source.\<close>

definition Team_d :: "Team \<Rightarrow> pyfloat" where
  "Team_d self = defense self"

definition Team_e :: "Team \<Rightarrow> pyfloat" where
  "Team_e self = efficiency self"

definition Team_l :: "Team \<Rightarrow> int" where
  "Team_l self = losses self"

definition Team_nc_o_e :: "Team \<Rightarrow> pyfloat" where
  "Team_nc_o_e self = nonconference_opponent_efficiency self"

definition Team_o :: "Team \<Rightarrow> pyfloat" where
  "Team_o self = offense self"

definition Team_o_d :: "Team \<Rightarrow> pyfloat" where
  "Team_o_d self = opponent_defense self"

definition Team_o_e :: "Team \<Rightarrow> pyfloat" where
  "Team_o_e self = opponent_efficiency self"

definition Team_o_o :: "Team \<Rightarrow> pyfloat" where
  "Team_o_o self = opponent_offense self"

text \<open>
  \<^verbatim>\<open>return '-'.join((self.wins, self.losses))\<close>: the two items handed to \<^verbatim>\<open>join\<close> are the
  integers stored in the fields.
\<close>

definition Team_record :: "Team \<Rightarrow> error + string" where
  "Team_record self = str_join ''-'' [PyInt (wins self), PyInt (losses self)]"

definition Team_t :: "Team \<Rightarrow> pyfloat" where
  "Team_t self = tempo self"

definition Team_w :: "Team \<Rightarrow> int" where
  "Team_w self = wins self"

subsection \<open>class KenPomParser\<close>

text \<open>
  \<^verbatim>\<open>HTMLParser.feed\<close> cuts the page into events and calls one handler per event, in
  document order; the events are the input of the model. \<^verbatim>\<open>self.row\<close> is \<^verbatim>\<open>None\<close> or a
  list, \<^verbatim>\<open>self.rows\<close> a list of lists.
\<close>

datatype event =
    StartTag string "(string \<times> string option) list"
  | EndTag string
  | Data string

record KenPomParser =
  row :: "string list option"
  rows :: "string list list"

definition KenPomParser_init :: KenPomParser where
  "KenPomParser_init = \<lparr>row = None, rows = []\<rparr>"

definition handle_starttag ::
    "KenPomParser \<Rightarrow> string \<Rightarrow> (string \<times> string option) list \<Rightarrow> error + KenPomParser" where
  "handle_starttag self tag attrs =
     (if tag = ''tr'' then Inr (self\<lparr>row := Some []\<rparr>) else Inr self)"

text \<open>\<^verbatim>\<open>len(self.row)\<close> raises \<^verbatim>\<open>TypeError\<close> when \<^verbatim>\<open>self.row\<close> is \<^verbatim>\<open>None\<close>.\<close>

definition handle_endtag :: "KenPomParser \<Rightarrow> string \<Rightarrow> error + KenPomParser" where
  "handle_endtag self tag =
     (if tag = ''tr'' then
        (case row self of
           None \<Rightarrow> Inl TypeError
         | Some r \<Rightarrow>
             Inr ((if length r = 22 then self\<lparr>rows := rows self @ [drop 1 r]\<rparr> else self)
                    \<lparr>row := None\<rparr>))
      else Inr self)"

definition handle_data :: "KenPomParser \<Rightarrow> string \<Rightarrow> error + KenPomParser" where
  "handle_data self data =
     (case row self of
        Some r \<Rightarrow> Inr (self\<lparr>row := Some (r @ [data])\<rparr>)
      | None \<Rightarrow> Inr self)"

fun handle :: "KenPomParser \<Rightarrow> event \<Rightarrow> error + KenPomParser" where
  "handle self (StartTag tag attrs) = handle_starttag self tag attrs"
| "handle self (EndTag tag) = handle_endtag self tag"
| "handle self (Data data) = handle_data self data"

fun feed :: "KenPomParser \<Rightarrow> event list \<Rightarrow> error + KenPomParser" where
  "feed self [] = Inr self"
| "feed self (ev # evs) = bind (handle self ev) (\<lambda>self'. feed self' evs)"

subsection \<open>_create_teams and get\<close>

text \<open>
  The body of the \<^verbatim>\<open>for\<close> loop of \<^verbatim>\<open>_create_teams\<close>, lines 155 to 165, for one element of
  \<^verbatim>\<open>team_data\<close>. The loop header unpacks the row into 21 names, raising \<^verbatim>\<open>ValueError\<close>
  on any other width; the names bound to \<^verbatim>\<open>_\<close> are the positions 6, 8, ..., 20.
\<close>

definition team_of_row :: "string list \<Rightarrow> error + Team" where
  "team_of_row r =
     (if length r \<noteq> 21 then Inl ValueError
      else
        bind (unpack2 (str_split CHR ''-'' (r ! 3))) (\<lambda>(w, l).
        bind (py_int (r ! 0)) (\<lambda>rank'.
        bind (py_int w) (\<lambda>wins'.
        bind (py_int l) (\<lambda>losses'.
        bind (py_float (r ! 4)) (\<lambda>e'.
        bind (py_float (r ! 5)) (\<lambda>o'.
        bind (py_float (r ! 7)) (\<lambda>d'.
        bind (py_float (r ! 9)) (\<lambda>t'.
        bind (py_float (r ! 11)) (\<lambda>luck'.
        bind (py_float (r ! 13)) (\<lambda>o_e'.
        bind (py_float (r ! 15)) (\<lambda>o_o'.
        bind (py_float (r ! 17)) (\<lambda>o_d'.
        bind (py_float (r ! 19)) (\<lambda>nc_o_e'.
          Inr \<lparr>rank = rank', name = r ! 1, conference = r ! 2,
               wins = wins', losses = losses',
               efficiency = e', offense = o', defense = d', tempo = t', luck = luck',
               opponent_efficiency = o_e', opponent_offense = o_o',
               opponent_defense = o_d',
               nonconference_opponent_efficiency = nc_o_e'\<rparr>))))))))))))))"

text \<open>The loop: \<^verbatim>\<open>teams[name] = Team(...)\<close> for each row in turn, an exception ending it.\<close>

fun create_teams_loop ::
    "(string \<rightharpoonup> Team) \<Rightarrow> string list list \<Rightarrow> error + (string \<rightharpoonup> Team)" where
  "create_teams_loop teams [] = Inr teams"
| "create_teams_loop teams (r # rs) =
     bind (team_of_row r) (\<lambda>team. create_teams_loop (teams(name team \<mapsto> team)) rs)"

definition create_teams :: "string list list \<Rightarrow> error + (string \<rightharpoonup> Team)" where
  "create_teams team_data = create_teams_loop Map.empty team_data"

text \<open>
  \<^verbatim>\<open>get\<close>, from the events of the page it has read: a fresh parser is fed, and its rows
  go to \<^verbatim>\<open>_create_teams\<close>.
\<close>

definition get :: "event list \<Rightarrow> error + (string \<rightharpoonup> Team)" where
  "get page = bind (feed KenPomParser_init page) (\<lambda>parser. create_teams (rows parser))"

subsection \<open>Test data\<close>

text \<open>The positions of the nine statistics in a row of 21 tokens, from the loop header.\<close>

definition stat_columns :: "nat list" where
  "stat_columns = [4, 5, 7, 9, 11, 13, 15, 17, 19]"

text \<open>
  A row of 21 tokens as \<^verbatim>\<open>_create_teams\<close> receives it, with the given rank, name, win-loss
  and efficiency tokens and the other tokens of the end-to-end scenario; \<open>emdash\<close> is the
  token of the ignored columns, the character U+2014 in UTF-8. \<open>acme_row\<close> is the
  scenario's data row, the 22 tokens the extractor collects.
\<close>

definition emdash :: string where
  "emdash = [CHR 0xE2, CHR 0x80, CHR 0x94]"

definition data_row :: "string \<Rightarrow> string \<Rightarrow> string \<Rightarrow> string \<Rightarrow> string list" where
  "data_row rk nm rc ef =
     [rk, nm, ''Big Conf'', rc, ef, ''120.3'', emdash,
      ''95.1'', emdash, ''68.2'', emdash, ''0.05'', emdash, ''99.0'', emdash, ''110.0'',
      emdash, ''90.0'', emdash, ''85.0'', emdash]"

definition acme_row :: "string list" where
  "acme_row = ''icon'' # data_row ''1'' ''Acme U'' ''30-4'' ''28.5''"

definition acme_team :: Team where
  "acme_team =
     \<lparr>rank = 1, name = ''Acme U'', conference = ''Big Conf'', wins = 30, losses = 4,
      efficiency = Finite 28.5, offense = Finite 120.3, defense = Finite 95.1,
      tempo = Finite 68.2, luck = Finite 0.05, opponent_efficiency = Finite 99.0,
      opponent_offense = Finite 110.0, opponent_defense = Finite 90.0,
      nonconference_opponent_efficiency = Finite 85.0\<rparr>"

text \<open>The events of one table row whose text events carry the given tokens.\<close>

definition row_events :: "string list \<Rightarrow> event list" where
  "row_events tokens = StartTag ''tr'' [] # map Data tokens @ [EndTag ''tr'']"

section \<open>Properties\<close>

subsection \<open>Sequencing\<close>

lemma bind_Inr: "bind (Inr x) f = f x"
  by (simp add: bind_def)

lemma bind_Inl: "bind (Inl e) f = Inl e"
  by (simp add: bind_def)

lemma bind_eq_Inr: "bind m f = Inr y \<longleftrightarrow> (\<exists>x. m = Inr x \<and> f x = Inr y)"
  by (cases m) (simp_all add: bind_def)

lemma bind_eq_Inl: "bind m f = Inl e \<longleftrightarrow> m = Inl e \<or> (\<exists>x. m = Inr x \<and> f x = Inl e)"
  by (cases m) (simp_all add: bind_def)

subsection \<open>The row extractor\<close>

lemma feed_append: "feed p (xs @ ys) = bind (feed p xs) (\<lambda>q. feed q ys)"
proof (induction xs arbitrary: p)
  case Nil
  show ?case by (simp add: bind_Inr)
next
  case (Cons x xs)
  show ?case
  proof (cases "handle p x")
    case (Inl e)
    then show ?thesis by (simp add: bind_Inl)
  next
    case (Inr q)
    then show ?thesis by (simp add: bind_Inr Cons.IH)
  qed
qed

lemma feed_data: "feed (p\<lparr>row := Some r\<rparr>) (map Data ds) = Inr (p\<lparr>row := Some (r @ ds)\<rparr>)"
proof (induction ds arbitrary: r)
  case Nil
  show ?case by simp
next
  case (Cons d ds)
  have "handle (p\<lparr>row := Some r\<rparr>) (Data d) = Inr (p\<lparr>row := Some (r @ [d])\<rparr>)"
    by (simp add: handle_data_def)
  then show ?case
    using Cons.IH [of "r @ [d]"] by (simp add: bind_Inr)
qed

lemma feed_row:
  "feed p (StartTag ''tr'' attrs # map Data ds @ [EndTag ''tr'']) =
     Inr (p\<lparr>row := None, rows := rows p @ (if length ds = 22 then [drop 1 ds] else [])\<rparr>)"
proof -
  have start: "handle p (StartTag ''tr'' attrs) = Inr (p\<lparr>row := Some []\<rparr>)"
    by (simp add: handle_starttag_def)
  have body: "feed (p\<lparr>row := Some []\<rparr>) (map Data ds) = Inr (p\<lparr>row := Some ds\<rparr>)"
    using feed_data [where p = p and r = "[]" and ds = ds] by simp
  have close: "feed (p\<lparr>row := Some ds\<rparr>) [EndTag ''tr''] =
      Inr (p\<lparr>row := None, rows := rows p @ (if length ds = 22 then [drop 1 ds] else [])\<rparr>)"
    by (simp add: handle_endtag_def bind_Inr)
  have "feed p (StartTag ''tr'' attrs # map Data ds @ [EndTag ''tr'']) =
      feed (p\<lparr>row := Some []\<rparr>) (map Data ds @ [EndTag ''tr''])"
    unfolding feed.simps start bind_Inr ..
  also have "\<dots> = feed (p\<lparr>row := Some ds\<rparr>) [EndTag ''tr'']"
    unfolding feed_append body bind_Inr ..
  finally show ?thesis
    using close by simp
qed

text \<open>
  Claim C2. A tag-close event for \<^verbatim>\<open>tr\<close> that arrives while no row buffer is open should
  leave the buffer absent and the row list as it was, with no error. The code does
  otherwise: \<^verbatim>\<open>handle_endtag\<close> takes \<^verbatim>\<open>len(self.row)\<close> before looking whether \<^verbatim>\<open>self.row\<close>
  is a list, so with \<^verbatim>\<open>self.row\<close> being \<^verbatim>\<open>None\<close> it raises \<^verbatim>\<open>TypeError\<close>, whatever the rows
  collected so far; a page that starts with a stray \<^verbatim>\<open></tr>\<close> stops the fresh parser.
\<close>

theorem endtag_without_open_row_raises:
  "handle_endtag (self\<lparr>row := None\<rparr>) ''tr'' = Inl TypeError
   \<and> feed KenPomParser_init [EndTag ''tr''] = Inl TypeError"
  by (simp add: handle_endtag_def KenPomParser_init_def bind_Inl)

text \<open>
  Claim C3. A well-nested table row is a tag-open event for \<^verbatim>\<open>tr\<close>, a sequence of text
  events and the tag-close event for \<^verbatim>\<open>tr\<close>. Fed to the extractor in any state, it
  raises no error and leaves no open buffer; when exactly 22 tokens were collected, the
  row without its first token is appended to the row list, and otherwise the row list is
  unchanged. The appended row has one token less than were collected, so 21.
\<close>

theorem well_nested_row_collected:
  "feed p (StartTag ''tr'' attrs # map Data ds @ [EndTag ''tr'']) =
     Inr (p\<lparr>row := None, rows := rows p @ (if length ds = 22 then [drop 1 ds] else [])\<rparr>)
   \<and> length (drop 1 ds) = length ds - 1"
  using feed_row [of p attrs ds] by simp

theorem well_nested_row_collected_witness:
  "feed KenPomParser_init (StartTag ''tr'' [] # map Data acme_row @ [EndTag ''tr'']) =
     Inr \<lparr>row = None, rows = [drop 1 acme_row]\<rparr>
   \<and> feed KenPomParser_init (StartTag ''tr'' [] # map Data [''Rk'', ''Team''] @ [EndTag ''tr'']) =
     Inr \<lparr>row = None, rows = []\<rparr>
   \<and> length (drop 1 acme_row) = 21"
  using well_nested_row_collected [of KenPomParser_init "[]" acme_row]
    well_nested_row_collected [of KenPomParser_init "[]" "[''Rk'', ''Team'']"]
  by (simp add: KenPomParser_init_def acme_row_def data_row_def)

subsection \<open>Splitting and unpacking\<close>

lemma str_split_nonempty: "str_split sep s \<noteq> []"
  by (induction s) simp_all

lemma length_str_split: "length (str_split sep s) = Suc (count_list s sep)"
proof (induction s)
  case Nil
  show ?case by simp
next
  case (Cons c cs)
  then show ?case using str_split_nonempty [of sep cs]
    by (cases "str_split sep cs") auto
qed

lemma str_split_no_sep: "p \<in> set (str_split sep s) \<Longrightarrow> sep \<notin> set p"
proof (induction s arbitrary: p)
  case Nil
  then show ?case by simp
next
  case (Cons c cs)
  show ?case
  proof (cases "str_split sep cs")
    case Nil
    then show ?thesis using str_split_nonempty [of sep cs] by simp
  next
    case (Cons x xs)
    with Cons.prems Cons.IH show ?thesis
      by (auto split: if_splits)
  qed
qed

lemma unpack2_Inr: "unpack2 xs = Inr (a, b) \<longleftrightarrow> xs = [a, b]"
  by (auto simp: unpack2_def split: list.splits)

lemma unpack2_Inl: "unpack2 xs = Inl e \<longleftrightarrow> e = ValueError \<and> length xs \<noteq> 2"
  by (auto simp: unpack2_def split: list.splits)

subsection \<open>Numeric literals\<close>


lemma set_strip: "c \<in> set (strip s) \<Longrightarrow> c \<in> set s"
  unfolding strip_def by (auto dest!: set_dropWhileD)



lemma unicode_space_bytes:
  "p \<in> set unicode_spaces \<Longrightarrow> p \<noteq> [] \<and> list_all (\<lambda>c. \<not> is_ascii c) p"
  by (auto simp: unicode_spaces_def is_ascii_def)

lemma space_width_match:
  assumes "space_width s \<noteq> 0"
  shows "take (space_width s) s \<in> set unicode_spaces \<and> space_width s \<le> length s"
proof -
  from assms obtain p where f: "find (\<lambda>p. take (length p) s = p) unicode_spaces = Some p"
    by (auto simp: space_width_def split: option.splits)
  then have w: "space_width s = length p" by (simp add: space_width_def)
  from f have p: "p \<in> set unicode_spaces" and t: "take (length p) s = p"
    by (auto simp: find_Some_iff)
  from t have "length (take (length p) s) = length p"
    by simp
  then have "length p \<le> length s"
    by simp
  with w p t show ?thesis by simp
qed

lemma space_width_ascii: "is_ascii c \<Longrightarrow> space_width (c # cs) = 0"
proof (rule ccontr)
  assume c: "is_ascii c" and "space_width (c # cs) \<noteq> 0"
  then have m: "take (space_width (c # cs)) (c # cs) \<in> set unicode_spaces"
    and "space_width (c # cs) \<noteq> 0"
    by (simp_all add: space_width_match)
  then obtain n where "space_width (c # cs) = Suc n" by (cases "space_width (c # cs)") auto
  with m have "c # take n cs \<in> set unicode_spaces" by simp
  then have "\<not> is_ascii c" by (auto dest: unicode_space_bytes)
  with c show False by simp
qed

lemma space_to_ascii_ascii: "list_all is_ascii s \<Longrightarrow> space_to_ascii s = s"
  by (induction s) (simp_all add: space_width_ascii space_to_ascii.simps)

lemma set_space_to_ascii:
  "x \<in> set (space_to_ascii s) \<Longrightarrow> x = CHR '' '' \<or> x \<in> set s"
proof (induction s rule: space_to_ascii.induct)
  case 1
  then show ?case by simp
next
  case (2 c cs)
  then show ?case
    by (auto simp: space_to_ascii.simps split: if_splits dest: in_set_dropD)
qed






lemma set_numeric_text: "c \<in> set (numeric_text s) \<Longrightarrow> c = CHR '' '' \<or> c \<in> set s"
  unfolding numeric_text_def by (auto dest: set_strip set_space_to_ascii)





lemma split_sign_body: "split_sign s = (neg, body) \<Longrightarrow> c \<in> set body \<Longrightarrow> c \<in> set s"
  by (auto simp: split_sign_def split: list.splits if_splits)


lemma split_sign_neg: "split_sign s = (True, body) \<Longrightarrow> CHR ''-'' \<in> set s"
  by (auto simp: split_sign_def split: list.splits if_splits)

lemma py_int_error: "py_int s = Inl e \<Longrightarrow> e = ValueError"
  by (auto simp: py_int_def split: prod.splits option.splits)

lemma py_int_nonneg:
  assumes "py_int s = Inr n" and "CHR ''-'' \<notin> set s"
  shows "0 \<le> n"
proof -
  obtain neg body where sg: "split_sign (numeric_text s) = (neg, body)"
    by (cases "split_sign (numeric_text s)")
  have "\<not> neg"
  proof
    assume neg
    with sg have "CHR ''-'' \<in> set (numeric_text s)" by (simp add: split_sign_neg)
    with assms(2) show False by (auto dest: set_numeric_text)
  qed
  with assms(1) sg show ?thesis
    by (auto simp: py_int_def split: option.splits)
qed








lemma py_float_error: "py_float s = Inl e \<Longrightarrow> e = ValueError"
  by (auto simp: py_float_def Let_def split: prod.splits option.splits if_splits)




subsection \<open>One row of the table\<close>

lemma team_of_row_InrD:
  assumes "team_of_row r = Inr tm"
  shows "length r = 21"
    and "\<exists>w l. str_split CHR ''-'' (r ! 3) = [w, l] \<and> py_int w = Inr (wins tm) \<and> py_int l = Inr (losses tm)"
    and "py_int (r ! 0) = Inr (rank tm)"
    and "name tm = r ! 1"
    and "conference tm = r ! 2"
    and "py_float (r ! 4) = Inr (efficiency tm)"
    and "py_float (r ! 5) = Inr (offense tm)"
    and "py_float (r ! 7) = Inr (defense tm)"
    and "py_float (r ! 9) = Inr (tempo tm)"
    and "py_float (r ! 11) = Inr (luck tm)"
    and "py_float (r ! 13) = Inr (opponent_efficiency tm)"
    and "py_float (r ! 15) = Inr (opponent_offense tm)"
    and "py_float (r ! 17) = Inr (opponent_defense tm)"
    and "py_float (r ! 19) = Inr (nonconference_opponent_efficiency tm)"
  using assms
  by (auto simp: team_of_row_def bind_eq_Inr unpack2_Inr split: if_splits)

lemma team_of_row_error: "team_of_row r = Inl e \<Longrightarrow> e = ValueError"
  by (auto simp: team_of_row_def bind_eq_Inl unpack2_Inl split: if_splits
      dest: py_int_error py_float_error)

lemma team_of_row_InrI:
  assumes "length r = 21"
    and "str_split CHR ''-'' (r ! 3) = [w, l]"
    and "py_int (r ! 0) = Inr rk" and "py_int w = Inr wi" and "py_int l = Inr lo"
    and "py_float (r ! 4) = Inr f4" and "py_float (r ! 5) = Inr f5"
    and "py_float (r ! 7) = Inr f7" and "py_float (r ! 9) = Inr f9"
    and "py_float (r ! 11) = Inr f11" and "py_float (r ! 13) = Inr f13"
    and "py_float (r ! 15) = Inr f15" and "py_float (r ! 17) = Inr f17"
    and "py_float (r ! 19) = Inr f19"
  shows "team_of_row r =
    Inr \<lparr>rank = rk, name = r ! 1, conference = r ! 2, wins = wi, losses = lo,
         efficiency = f4, offense = f5, defense = f7, tempo = f9, luck = f11,
         opponent_efficiency = f13, opponent_offense = f15, opponent_defense = f17,
         nonconference_opponent_efficiency = f19\<rparr>"
  using assms by (simp add: team_of_row_def bind_Inr unpack2_def)

lemma team_of_row_nonneg:
  assumes "team_of_row r = Inr tm"
  shows "0 \<le> wins tm" and "0 \<le> losses tm"
proof -
  from assms obtain w l where sp: "str_split CHR ''-'' (r ! 3) = [w, l]"
    and w: "py_int w = Inr (wins tm)" and l: "py_int l = Inr (losses tm)"
    using team_of_row_InrD(2) by blast
  have "CHR ''-'' \<notin> set w" and "CHR ''-'' \<notin> set l"
    using str_split_no_sep [of _ "CHR ''-''" "r ! 3"] sp by simp_all
  with w l show "0 \<le> wins tm" and "0 \<le> losses tm"
    by (auto dest: py_int_nonneg)
qed

subsection \<open>Evaluating the test rows\<close>

lemmas literal_eval = numeric_text_def space_to_ascii_ascii is_ascii_def strip_def py_isspace_def split_sign_def py_isdigit_def digits_value_def
  digit_value_def ascii_lower_def float_number_def float_mantissa_def float_exponent_def
  is_exp_char_def opt_digitpart_def

lemma scenario_stats:
  "py_float ''120.3'' = Inr (Finite 120.3)"
  "py_float ''95.1'' = Inr (Finite 95.1)"
  "py_float ''68.2'' = Inr (Finite 68.2)"
  "py_float ''0.05'' = Inr (Finite 0.05)"
  "py_float ''99.0'' = Inr (Finite 99.0)"
  "py_float ''110.0'' = Inr (Finite 110.0)"
  "py_float ''90.0'' = Inr (Finite 90.0)"
  "py_float ''85.0'' = Inr (Finite 85.0)"
  by (simp_all add: py_float_def literal_eval)

lemma team_of_data_row:
  "team_of_row (data_row rk nm rc ef) =
     bind (unpack2 (str_split CHR ''-'' rc)) (\<lambda>(w, l).
     bind (py_int rk) (\<lambda>rank'.
     bind (py_int w) (\<lambda>wins'.
     bind (py_int l) (\<lambda>losses'.
     bind (py_float ef) (\<lambda>e'.
       Inr (acme_team\<lparr>rank := rank', name := nm, wins := wins', losses := losses',
                       efficiency := e'\<rparr>))))))"
  by (simp add: team_of_row_def data_row_def scenario_stats bind_Inr acme_team_def)

lemma scenario_tokens:
  "str_split CHR ''-'' ''30-4'' = [''30'', ''4'']"
  "py_int ''1'' = Inr 1" "py_int ''30'' = Inr 30" "py_int ''4'' = Inr 4"
  "py_float ''28.5'' = Inr (Finite 28.5)"
  by (simp_all add: py_int_def py_float_def literal_eval)

lemma team_of_acme_row: "team_of_row (data_row ''1'' ''Acme U'' ''30-4'' ''28.5'') = Inr acme_team"
  by (simp add: team_of_data_row scenario_tokens unpack2_def bind_Inr acme_team_def)

lemma data_row_facts:
  "length (data_row rk nm rc ef) = 21"
  "data_row rk nm rc ef ! 0 = rk"
  "data_row rk nm rc ef ! 1 = nm"
  "data_row rk nm rc ef ! 3 = rc"
  "data_row rk nm rc ef ! 4 = ef"
  by (simp_all add: data_row_def)

lemma data_row_stats:
  "py_float ef = Inr v \<Longrightarrow>
     list_all (\<lambda>i. \<not> isl (py_float (data_row rk nm rc ef ! i))) stat_columns"
  by (simp add: data_row_def stat_columns_def scenario_stats)

lemma sample_tokens:
  "str_split CHR ''-'' ''30-4-2'' = [''30'', ''4'', ''2'']"
  "str_split CHR ''-'' ''30'' = [''30'']"
  "str_split CHR ''-'' ''30-x'' = [''30'', ''x'']"
  "py_int ''x'' = Inl ValueError"
  "py_int ''0'' = Inr 0"
  "py_int ''1,000'' = Inl ValueError"
  "py_float ''N/A'' = Inl ValueError"
  "py_float ''1,000.5'' = Inl ValueError"
  "str_split CHR ''-'' ''31-5'' = [''31'', ''5'']"
  "py_int ''2'' = Inr 2" "py_int ''31'' = Inr 31" "py_int ''5'' = Inr 5"
  "py_float ''27.0'' = Inr (Finite 27.0)"
  by (simp_all add: py_int_def py_float_def literal_eval)

subsection \<open>The win-loss token and the numeric tokens\<close>

lemma win_loss_decides:
  assumes "length r = 21"
    and "py_int (r ! 0) = Inr rk"
    and "list_all (\<lambda>i. \<not> isl (py_float (r ! i))) stat_columns"
  shows "team_of_row r = Inl ValueError \<longleftrightarrow>
           count_list (r ! 3) CHR ''-'' \<noteq> 1
           \<or> (\<exists>w l. str_split CHR ''-'' (r ! 3) = [w, l]
                 \<and> (py_int w = Inl ValueError \<or> py_int l = Inl ValueError))"
proof -
  have stat: "\<exists>v. py_float (r ! i) = Inr v" if "i \<in> set stat_columns" for i
    using assms(3) that by (cases "py_float (r ! i)") (auto simp: list_all_iff)
  obtain f4 where f4: "py_float (r ! 4) = Inr f4"
    using stat [of 4] by (auto simp: stat_columns_def)
  obtain f5 where f5: "py_float (r ! 5) = Inr f5"
    using stat [of 5] by (auto simp: stat_columns_def)
  obtain f7 where f7: "py_float (r ! 7) = Inr f7"
    using stat [of 7] by (auto simp: stat_columns_def)
  obtain f9 where f9: "py_float (r ! 9) = Inr f9"
    using stat [of 9] by (auto simp: stat_columns_def)
  obtain f11 where f11: "py_float (r ! 11) = Inr f11"
    using stat [of 11] by (auto simp: stat_columns_def)
  obtain f13 where f13: "py_float (r ! 13) = Inr f13"
    using stat [of 13] by (auto simp: stat_columns_def)
  obtain f15 where f15: "py_float (r ! 15) = Inr f15"
    using stat [of 15] by (auto simp: stat_columns_def)
  obtain f17 where f17: "py_float (r ! 17) = Inr f17"
    using stat [of 17] by (auto simp: stat_columns_def)
  obtain f19 where f19: "py_float (r ! 19) = Inr f19"
    using stat [of 19] by (auto simp: stat_columns_def)
  note stats = f4 f5 f7 f9 f11 f13 f15 f17 f19
  show ?thesis
  proof (cases "count_list (r ! 3) CHR ''-'' = 1")
    case False
    then have "length (str_split CHR ''-'' (r ! 3)) \<noteq> 2"
      by (simp add: length_str_split)
    then have "unpack2 (str_split CHR ''-'' (r ! 3)) = Inl ValueError"
      by (simp add: unpack2_Inl)
    with assms(1) False show ?thesis
      by (simp add: team_of_row_def bind_Inl)
  next
    case True
    then have "length (str_split CHR ''-'' (r ! 3)) = 2"
      by (simp add: length_str_split)
    then obtain w l where sp: "str_split CHR ''-'' (r ! 3) = [w, l]"
      by (auto simp: length_Suc_conv numeral_2_eq_2)
    show ?thesis
    proof (cases "py_int w")
      case (Inl e)
      then have w: "py_int w = Inl ValueError" using py_int_error by blast
      with assms(1) assms(2) sp have "team_of_row r = Inl ValueError"
        by (simp add: team_of_row_def unpack2_def bind_Inr bind_Inl)
      with w sp show ?thesis by simp
    next
      case wi: (Inr wi)
      show ?thesis
      proof (cases "py_int l")
        case (Inl e)
        then have l: "py_int l = Inl ValueError" using py_int_error by blast
        with assms(1) assms(2) sp wi have "team_of_row r = Inl ValueError"
          by (simp add: team_of_row_def unpack2_def bind_Inr bind_Inl)
        with l sp show ?thesis by simp
      next
        case lo: (Inr lo)
        from team_of_row_InrI [OF assms(1) sp assms(2) wi lo stats]
        have "team_of_row r \<noteq> Inl ValueError" by simp
        with True sp wi lo show ?thesis by simp
      qed
    qed
  qed
qed

lemma win_loss_failure_fails_row:
  assumes "count_list (r ! 3) CHR ''-'' \<noteq> 1
           \<or> (\<exists>w l. str_split CHR ''-'' (r ! 3) = [w, l]
                 \<and> (py_int w = Inl ValueError \<or> py_int l = Inl ValueError))"
  shows "team_of_row r = Inl ValueError"
proof (cases "team_of_row r")
  case (Inl e)
  then show ?thesis by (simp add: team_of_row_error)
next
  case (Inr tm)
  then obtain w l where sp: "str_split CHR ''-'' (r ! 3) = [w, l]"
    and ok: "py_int w = Inr (wins tm)" "py_int l = Inr (losses tm)"
    using team_of_row_InrD(2) by blast
  from sp have "length (str_split CHR ''-'' (r ! 3)) = 2" by simp
  then have "count_list (r ! 3) CHR ''-'' = 1" by (simp add: length_str_split)
  with assms sp ok have False by auto
  then show ?thesis ..
qed

text \<open>
  Claim C4 says that a row fails if and only if its win-loss token does not hold
  exactly one hyphen or one of the two sides is refused by \<^verbatim>\<open>int\<close>. The other tokens
  can make a row fail as well: the row below has the win-loss token \<^verbatim>\<open>30-4\<close>, with
  one hyphen and two sides that convert, and fails on its rank token \<^verbatim>\<open>x\<close>.
\<close>

theorem win_loss_iff_counterexample:
  "team_of_row (data_row ''x'' ''Acme U'' ''30-4'' ''28.5'') = Inl ValueError
   \<and> data_row ''x'' ''Acme U'' ''30-4'' ''28.5'' ! 3 = ''30-4''
   \<and> count_list ''30-4'' CHR ''-'' = 1
   \<and> str_split CHR ''-'' ''30-4'' = [''30'', ''4'']
   \<and> py_int ''30'' = Inr 30 \<and> py_int ''4'' = Inr 4"
  by (simp add: team_of_data_row scenario_tokens sample_tokens unpack2_def bind_Inr bind_Inl
      data_row_facts)

text \<open>
  Claim C4, as amended. For a row of 21 tokens the builder splits the win-loss token at
  every hyphen and needs exactly two pieces, which is the case exactly when the token
  holds one hyphen, and gives each piece to \<^verbatim>\<open>int\<close>. When the token does not hold
  exactly one hyphen, or one of the two pieces is refused by \<^verbatim>\<open>int\<close>, the row fails
  with Python's \<^verbatim>\<open>ValueError\<close>, the parse error of the module. When the rank token and
  the nine statistic tokens parse, so that only the win-loss token can make the row
  fail, the row fails if and only if that is the case. When the row succeeds, the wins
  and losses of the record are the values of the two pieces, and both are non-negative.
  No row raises another exception than \<^verbatim>\<open>ValueError\<close>.
\<close>

theorem win_loss_token_parse:
  assumes "length r = 21"
  shows "(count_list (r ! 3) CHR ''-'' \<noteq> 1
            \<or> (\<exists>w l. str_split CHR ''-'' (r ! 3) = [w, l]
                  \<and> (py_int w = Inl ValueError \<or> py_int l = Inl ValueError))
          \<longrightarrow> team_of_row r = Inl ValueError)
         \<and> (\<not> isl (py_int (r ! 0))
              \<and> list_all (\<lambda>i. \<not> isl (py_float (r ! i))) stat_columns
            \<longrightarrow> (team_of_row r = Inl ValueError \<longleftrightarrow>
                   count_list (r ! 3) CHR ''-'' \<noteq> 1
                   \<or> (\<exists>w l. str_split CHR ''-'' (r ! 3) = [w, l]
                         \<and> (py_int w = Inl ValueError \<or> py_int l = Inl ValueError))))
         \<and> (\<forall>tm. team_of_row r = Inr tm \<longrightarrow>
               (\<exists>w l. str_split CHR ''-'' (r ! 3) = [w, l]
                  \<and> py_int w = Inr (wins tm) \<and> py_int l = Inr (losses tm)
                  \<and> 0 \<le> wins tm \<and> 0 \<le> losses tm))
         \<and> team_of_row r \<noteq> Inl TypeError"
proof (intro conjI impI)
  assume "count_list (r ! 3) CHR ''-'' \<noteq> 1
      \<or> (\<exists>w l. str_split CHR ''-'' (r ! 3) = [w, l]
            \<and> (py_int w = Inl ValueError \<or> py_int l = Inl ValueError))"
  then show "team_of_row r = Inl ValueError"
    by (rule win_loss_failure_fails_row)
next
  assume "\<not> isl (py_int (r ! 0))
      \<and> list_all (\<lambda>i. \<not> isl (py_float (r ! i))) stat_columns"
  then obtain rk where "py_int (r ! 0) = Inr rk"
    and "list_all (\<lambda>i. \<not> isl (py_float (r ! i))) stat_columns"
    by (cases "py_int (r ! 0)") auto
  from win_loss_decides [OF assms this]
  show "team_of_row r = Inl ValueError \<longleftrightarrow>
      count_list (r ! 3) CHR ''-'' \<noteq> 1
      \<or> (\<exists>w l. str_split CHR ''-'' (r ! 3) = [w, l]
            \<and> (py_int w = Inl ValueError \<or> py_int l = Inl ValueError))"
    .
next
  show "\<forall>tm. team_of_row r = Inr tm \<longrightarrow>
      (\<exists>w l. str_split CHR ''-'' (r ! 3) = [w, l]
         \<and> py_int w = Inr (wins tm) \<and> py_int l = Inr (losses tm)
         \<and> 0 \<le> wins tm \<and> 0 \<le> losses tm)"
    using team_of_row_InrD(2) team_of_row_nonneg by blast
next
  show "team_of_row r \<noteq> Inl TypeError"
    using team_of_row_error [of r TypeError] by auto
qed

theorem win_loss_token_parse_witness:
  "team_of_row (data_row ''1'' ''Acme U'' ''30-4'' ''28.5'') = Inr acme_team
   \<and> 0 \<le> wins acme_team \<and> 0 \<le> losses acme_team
   \<and> team_of_row (data_row ''1'' ''Acme U'' ''30-4-2'' ''28.5'') = Inl ValueError
   \<and> team_of_row (data_row ''1'' ''Acme U'' ''30'' ''28.5'') = Inl ValueError
   \<and> team_of_row (data_row ''1'' ''Acme U'' ''30-x'' ''28.5'') = Inl ValueError
   \<and> team_of_row (data_row ''x'' ''Acme U'' ''30-x'' ''28.5'') = Inl ValueError"
proof -
  have len: "length (data_row rk ''Acme U'' rc ''28.5'') = 21" for rk rc
    by (rule data_row_facts)
  have rk: "\<not> isl (py_int (data_row ''1'' ''Acme U'' rc ''28.5'' ! 0))" for rc
    by (simp add: data_row_facts scenario_tokens)
  have st: "list_all (\<lambda>i. \<not> isl (py_float (data_row ''1'' ''Acme U'' rc ''28.5'' ! i)))
      stat_columns" for rc
    by (rule data_row_stats) (rule scenario_tokens)
  have good: "team_of_row (data_row ''1'' ''Acme U'' ''30-4'' ''28.5'') = Inr acme_team"
    by (rule team_of_acme_row)
  with win_loss_token_parse [OF len [of "''1''" "''30-4''"]]
  have nonneg: "0 \<le> wins acme_team \<and> 0 \<le> losses acme_team"
    by blast
  have b1: "team_of_row (data_row ''1'' ''Acme U'' ''30-4-2'' ''28.5'') = Inl ValueError"
    using win_loss_token_parse [OF len [of "''1''" "''30-4-2''"]] rk st
    by (simp add: data_row_facts)
  have b2: "team_of_row (data_row ''1'' ''Acme U'' ''30'' ''28.5'') = Inl ValueError"
    using win_loss_token_parse [OF len [of "''1''" "''30''"]] rk st
    by (simp add: data_row_facts)
  have b3: "team_of_row (data_row ''1'' ''Acme U'' ''30-x'' ''28.5'') = Inl ValueError"
    using win_loss_token_parse [OF len [of "''1''" "''30-x''"]] rk st
    by (simp add: data_row_facts sample_tokens)
  have b4: "team_of_row (data_row ''x'' ''Acme U'' ''30-x'' ''28.5'') = Inl ValueError"
    using win_loss_token_parse [OF len [of "''x''" "''30-x''"]]
    by (simp add: data_row_facts sample_tokens)
  from good nonneg b1 b2 b3 b4 show ?thesis by simp
qed

lemma whitespace_examples:
  "py_int ([CHR 0xC2, CHR 0xA0] @ ''12'') = Inr 12"
  "py_int ([CHR 0x1C] @ ''12'') = Inl ValueError"
  "py_float (''1.5'' @ [CHR 0xE2, CHR 0x80, CHR 0x83]) = Inr (Finite 1.5)"
  "py_float ([CHR 0x1F] @ ''1.5'') = Inl ValueError"
  by (simp_all add: py_int_def py_float_def numeric_text_def space_to_ascii.simps
      space_width_def unicode_spaces_def strip_def py_isspace_def split_sign_def
      py_isdigit_def digits_value_def digit_value_def ascii_lower_def float_number_def
      float_mantissa_def float_exponent_def is_exp_char_def opt_digitpart_def)






subsection \<open>class Team\<close>

text \<open>
  Claim C9. For every \<^verbatim>\<open>Team\<close>, each short-name property returns the field with the long
  name: \<^verbatim>\<open>d\<close> the defense, \<^verbatim>\<open>e\<close> the efficiency, \<^verbatim>\<open>l\<close> the losses, \<^verbatim>\<open>nc_o_e\<close> the
  nonconference opponent efficiency, \<^verbatim>\<open>o\<close> the offense, \<^verbatim>\<open>o_d\<close> the opponent defense,
  \<^verbatim>\<open>o_e\<close> the opponent efficiency, \<^verbatim>\<open>o_o\<close> the opponent offense, \<^verbatim>\<open>t\<close> the tempo and
  \<^verbatim>\<open>w\<close> the wins.
\<close>

theorem alias_consistency:
  "Team_d self = defense self
   \<and> Team_e self = efficiency self
   \<and> Team_l self = losses self
   \<and> Team_nc_o_e self = nonconference_opponent_efficiency self
   \<and> Team_o self = offense self
   \<and> Team_o_d self = opponent_defense self
   \<and> Team_o_e self = opponent_efficiency self
   \<and> Team_o_o self = opponent_offense self
   \<and> Team_t self = tempo self
   \<and> Team_w self = wins self"
  by (simp add: Team_d_def Team_e_def Team_l_def Team_nc_o_e_def Team_o_def Team_o_d_def
      Team_o_e_def Team_o_o_def Team_t_def Team_w_def)

theorem alias_consistency_witness:
  "Team_d acme_team = Finite 95.1
   \<and> Team_e acme_team = Finite 28.5
   \<and> Team_l acme_team = 4
   \<and> Team_nc_o_e acme_team = Finite 85.0
   \<and> Team_o acme_team = Finite 120.3
   \<and> Team_o_d acme_team = Finite 90.0
   \<and> Team_o_e acme_team = Finite 99.0
   \<and> Team_o_o acme_team = Finite 110.0
   \<and> Team_t acme_team = Finite 68.2
   \<and> Team_w acme_team = 30"
  using alias_consistency [of acme_team] by (simp add: acme_team_def)

text \<open>
  Claim C1. The \<^verbatim>\<open>record\<close> property should join the wins and the losses with a
  hyphen and so give back the win-loss token of the row. The code does otherwise: the
  two fields hold integers, \<^verbatim>\<open>str.join\<close> takes strings only, and the property raises
  \<^verbatim>\<open>TypeError\<close> for every \<^verbatim>\<open>Team\<close>, the one built from the scenario's row
  (token \<^verbatim>\<open>30-4\<close>) included.
\<close>

theorem record_property_raises:
  "Team_record self = Inl TypeError
   \<and> team_of_row (drop 1 acme_row) = Inr acme_team
   \<and> Team_record acme_team = Inl TypeError"
  by (simp add: Team_record_def acme_row_def team_of_acme_row)

subsection \<open>_create_teams\<close>

lemma create_teams_loop_Inl:
  "team_of_row r = Inl e \<Longrightarrow> create_teams_loop m (r # rs) = Inl e"
  unfolding create_teams_loop.simps by (simp only: bind_Inl)

lemma create_teams_loop_Inr:
  "team_of_row r = Inr tm \<Longrightarrow>
     create_teams_loop m (r # rs) = create_teams_loop (m(name tm \<mapsto> tm)) rs"
  unfolding create_teams_loop.simps by (simp only: bind_Inr)

lemma create_teams_loop_Cons_eq_Inr:
  "create_teams_loop m (r # rs) = Inr m' \<longleftrightarrow>
     (\<exists>tm. team_of_row r = Inr tm \<and> create_teams_loop (m(name tm \<mapsto> tm)) rs = Inr m')"
proof (cases "team_of_row r")
  case (Inl e)
  then show ?thesis by (simp only: create_teams_loop_Inl) simp
next
  case (Inr tm)
  then show ?thesis by (simp only: create_teams_loop_Inr) simp
qed

lemma create_teams_loop_append:
  "create_teams_loop m (xs @ ys) = bind (create_teams_loop m xs) (\<lambda>m'. create_teams_loop m' ys)"
proof (induction xs arbitrary: m)
  case Nil
  show ?case by (simp add: bind_Inr)
next
  case (Cons x xs)
  show ?case
  proof (cases "team_of_row x")
    case (Inl e)
    then show ?thesis by (simp add: create_teams_loop_Inl bind_Inl del: create_teams_loop.simps)
  next
    case (Inr tm)
    then show ?thesis
      by (simp add: create_teams_loop_Inr Cons.IH del: create_teams_loop.simps fun_upd_apply)
  qed
qed

lemma create_teams_loop_error: "create_teams_loop m rs = Inl e \<Longrightarrow> e = ValueError"
proof (induction rs arbitrary: m)
  case Nil
  then show ?case by simp
next
  case (Cons r rs)
  show ?case
  proof (cases "team_of_row r")
    case (Inl e')
    with Cons.prems show ?thesis
      by (simp add: create_teams_loop_Inl team_of_row_error del: create_teams_loop.simps)
  next
    case (Inr tm)
    with Cons.prems have "create_teams_loop (m(name tm \<mapsto> tm)) rs = Inl e"
      by (simp add: create_teams_loop_Inr del: create_teams_loop.simps)
    then show ?thesis by (rule Cons.IH)
  qed
qed

lemma create_teams_loop_fails: 
  "(\<exists>e. create_teams_loop m rs = Inl e) \<longleftrightarrow> (\<exists>r \<in> set rs. \<exists>e. team_of_row r = Inl e)"
proof (induction rs arbitrary: m)
  case Nil
  show ?case by simp
next
  case (Cons r rs)
  show ?case
  proof (cases "team_of_row r")
    case (Inl e)
    then show ?thesis
      by (auto simp: create_teams_loop_Inl simp del: create_teams_loop.simps)
  next
    case (Inr tm)
    then show ?thesis using Cons.IH [of "m(name tm \<mapsto> tm)"]
      by (simp add: create_teams_loop_Inr del: create_teams_loop.simps fun_upd_apply)
  qed
qed

lemma create_teams_loop_other:
  "create_teams_loop m rs = Inr m' \<Longrightarrow> \<forall>r \<in> set rs. r ! 1 \<noteq> n \<Longrightarrow> m' n = m n"
proof (induction rs arbitrary: m)
  case Nil
  then show ?case by simp
next
  case (Cons r rs)
  from Cons.prems(1) obtain tm where tm: "team_of_row r = Inr tm"
    and rest: "create_teams_loop (m(name tm \<mapsto> tm)) rs = Inr m'"
    unfolding create_teams_loop_Cons_eq_Inr by blast
  from tm have "name tm = r ! 1" by (rule team_of_row_InrD)
  with Cons.prems(2) have "name tm \<noteq> n" by simp
  moreover from Cons.prems(2) have "m' n = (m(name tm \<mapsto> tm)) n"
    using Cons.IH [OF rest] by simp
  ultimately show ?case by simp
qed

lemma create_teams_loop_entry:
  "create_teams_loop m rs = Inr m' \<Longrightarrow> m' n = Some tm \<Longrightarrow>
     m n = Some tm \<or> (\<exists>r \<in> set rs. team_of_row r = Inr tm \<and> r ! 1 = n)"
proof (induction rs arbitrary: m)
  case Nil
  then show ?case by simp
next
  case (Cons r rs)
  from Cons.prems(1) obtain t where t: "team_of_row r = Inr t"
    and rest: "create_teams_loop (m(name t \<mapsto> t)) rs = Inr m'"
    unfolding create_teams_loop_Cons_eq_Inr by blast
  from t have nm: "name t = r ! 1" by (rule team_of_row_InrD)
  from Cons.IH [OF rest Cons.prems(2)]
  show ?case
  proof
    assume "(m(name t \<mapsto> t)) n = Some tm"
    with t nm show ?thesis by (auto split: if_splits)
  next
    assume "\<exists>r \<in> set rs. team_of_row r = Inr tm \<and> r ! 1 = n"
    then show ?thesis by auto
  qed
qed

lemma create_teams_single:
  "team_of_row r = Inr tm \<Longrightarrow> create_teams [r] = Inr [name tm \<mapsto> tm]"
  by (simp add: create_teams_def create_teams_loop_Inr del: create_teams_loop.simps(2))

lemma acme_team_name: "name acme_team = ''Acme U''"
  by (simp add: acme_team_def)

text \<open>
  Claim C5 says that the caller chooses between a fail-fast and a lenient policy. The
  code has no such choice: \<^verbatim>\<open>_create_teams\<close> takes the rows and nothing else, and a row
  that fails ends the whole call. With a malformed row in front of the scenario's row
  the result is the error, not the mapping that the scenario's row alone gives.
\<close>

theorem no_lenient_mode_counterexample:
  "create_teams [data_row ''1'' ''Bad U'' ''30-4-2'' ''28.5'',
                 data_row ''1'' ''Acme U'' ''30-4'' ''28.5''] = Inl ValueError
   \<and> create_teams [data_row ''1'' ''Acme U'' ''30-4'' ''28.5''] = Inr [''Acme U'' \<mapsto> acme_team]"
proof -
  have "team_of_row (data_row ''1'' ''Bad U'' ''30-4-2'' ''28.5'') = Inl ValueError"
    by (simp add: team_of_data_row sample_tokens unpack2_def bind_Inl)
  then have "create_teams [data_row ''1'' ''Bad U'' ''30-4-2'' ''28.5'',
      data_row ''1'' ''Acme U'' ''30-4'' ''28.5''] = Inl ValueError"
    by (simp add: create_teams_def create_teams_loop_Inl del: create_teams_loop.simps)
  moreover have "create_teams [data_row ''1'' ''Acme U'' ''30-4'' ''28.5''] =
      Inr [''Acme U'' \<mapsto> acme_team]"
    using create_teams_single [OF team_of_acme_row] by (simp add: acme_team_name)
  ultimately show ?thesis by simp
qed

text \<open>
  Claim C5, as amended. \<^verbatim>\<open>_create_teams\<close> is always fail-fast: it fails, with
  \<^verbatim>\<open>ValueError\<close> and never another exception, if and only if some row fails to parse,
  and it returns a mapping if and only if every row parses.
\<close>

theorem create_teams_fail_fast:
  "(create_teams team_data = Inl ValueError \<longleftrightarrow>
      (\<exists>r \<in> set team_data. team_of_row r = Inl ValueError))
   \<and> ((\<exists>teams. create_teams team_data = Inr teams) \<longleftrightarrow>
      (\<forall>r \<in> set team_data. \<exists>tm. team_of_row r = Inr tm))
   \<and> create_teams team_data \<noteq> Inl TypeError"
proof -
  have fails: "(\<exists>e. create_teams team_data = Inl e) \<longleftrightarrow>
      (\<exists>r \<in> set team_data. \<exists>e. team_of_row r = Inl e)"
    unfolding create_teams_def by (rule create_teams_loop_fails)
  have kind: "create_teams team_data = Inl e \<Longrightarrow> e = ValueError" for e
    unfolding create_teams_def by (rule create_teams_loop_error)
  have row_kind: "team_of_row r = Inl e \<Longrightarrow> e = ValueError" for r e
    by (rule team_of_row_error)
  have a: "create_teams team_data = Inl ValueError \<longleftrightarrow>
      (\<exists>r \<in> set team_data. team_of_row r = Inl ValueError)"
    using fails kind row_kind by metis
  have "(\<exists>teams. create_teams team_data = Inr teams) \<longleftrightarrow> \<not> (\<exists>e. create_teams team_data = Inl e)"
    by (cases "create_teams team_data") simp_all
  also have "\<dots> \<longleftrightarrow> (\<forall>r \<in> set team_data. \<not> (\<exists>e. team_of_row r = Inl e))"
    using fails by simp
  also have "\<dots> \<longleftrightarrow> (\<forall>r \<in> set team_data. \<exists>tm. team_of_row r = Inr tm)"
    by (metis sum.exhaust sum.distinct(1))
  finally have b: "(\<exists>teams. create_teams team_data = Inr teams) \<longleftrightarrow>
      (\<forall>r \<in> set team_data. \<exists>tm. team_of_row r = Inr tm)" .
  have c: "create_teams team_data \<noteq> Inl TypeError"
    using kind [of TypeError] by auto
  from a b c show ?thesis by blast
qed

theorem create_teams_fail_fast_witness:
  "create_teams [data_row ''1'' ''Acme U'' ''30-4'' ''28.5'',
                 data_row ''1'' ''Bad U'' ''30-4-2'' ''28.5'',
                 data_row ''1'' ''Acme U'' ''30-4'' ''28.5''] = Inl ValueError
   \<and> (\<exists>teams. create_teams [data_row ''1'' ''Acme U'' ''30-4'' ''28.5''] = Inr teams)"
proof -
  have bad: "team_of_row (data_row ''1'' ''Bad U'' ''30-4-2'' ''28.5'') = Inl ValueError"
    by (simp add: team_of_data_row sample_tokens unpack2_def bind_Inl)
  have "create_teams [data_row ''1'' ''Acme U'' ''30-4'' ''28.5'',
                 data_row ''1'' ''Bad U'' ''30-4-2'' ''28.5'',
                 data_row ''1'' ''Acme U'' ''30-4'' ''28.5''] = Inl ValueError"
    using create_teams_fail_fast [of "[data_row ''1'' ''Acme U'' ''30-4'' ''28.5'',
                 data_row ''1'' ''Bad U'' ''30-4-2'' ''28.5'',
                 data_row ''1'' ''Acme U'' ''30-4'' ''28.5'']"] bad
    by simp
  moreover have "\<exists>teams. create_teams [data_row ''1'' ''Acme U'' ''30-4'' ''28.5''] = Inr teams"
    using create_teams_fail_fast [of "[data_row ''1'' ''Acme U'' ''30-4'' ''28.5'']"]
      team_of_acme_row
    by simp
  ultimately show ?thesis by simp
qed

text \<open>
  Claim C8 says that every record of a result has wins and losses of at least 0 and a
  rank of at least 1. The rank is not checked: a row whose rank token is \<^verbatim>\<open>0\<close> gives
  a record of rank 0.
\<close>

theorem rank_not_validated_counterexample:
  "create_teams [data_row ''0'' ''Acme U'' ''30-4'' ''28.5''] =
     Inr [''Acme U'' \<mapsto> acme_team\<lparr>rank := 0\<rparr>]
   \<and> \<not> 1 \<le> rank (acme_team\<lparr>rank := 0\<rparr>)"
proof -
  have "team_of_row (data_row ''0'' ''Acme U'' ''30-4'' ''28.5'') = Inr (acme_team\<lparr>rank := 0\<rparr>)"
    by (simp add: team_of_data_row scenario_tokens sample_tokens unpack2_def bind_Inr acme_team_def)
  from create_teams_single [OF this] show ?thesis
    by (simp add: acme_team_name)
qed

text \<open>
  Claim C8, as amended. Every record in a mapping that \<^verbatim>\<open>_create_teams\<close> returns has
  wins and losses of at least 0, and was built from one of the rows; its rank is the
  integer that \<^verbatim>\<open>int\<close> reads from the rank token of that row, whatever its sign.
\<close>

theorem built_records_invariant:
  assumes "create_teams team_data = Inr teams" and "teams n = Some tm"
  shows "0 \<le> wins tm \<and> 0 \<le> losses tm
         \<and> (\<exists>r \<in> set team_data. team_of_row r = Inr tm \<and> py_int (r ! 0) = Inr (rank tm))"
proof -
  from assms have "Map.empty n = Some tm
      \<or> (\<exists>r \<in> set team_data. team_of_row r = Inr tm \<and> r ! 1 = n)"
    unfolding create_teams_def by (rule create_teams_loop_entry)
  then obtain r where r: "r \<in> set team_data" "team_of_row r = Inr tm"
    by auto
  from r(2) have "0 \<le> wins tm" and "0 \<le> losses tm" and "py_int (r ! 0) = Inr (rank tm)"
    by (rule team_of_row_nonneg, rule team_of_row_nonneg, rule team_of_row_InrD)
  with r show ?thesis by blast
qed

theorem built_records_invariant_witness:
  "create_teams [data_row ''0'' ''Acme U'' ''30-4'' ''28.5''] =
     Inr [''Acme U'' \<mapsto> acme_team\<lparr>rank := 0\<rparr>]
   \<and> 0 \<le> wins (acme_team\<lparr>rank := 0\<rparr>) \<and> 0 \<le> losses (acme_team\<lparr>rank := 0\<rparr>)
   \<and> py_int ''0'' = Inr (rank (acme_team\<lparr>rank := 0\<rparr>))"
proof -
  have "team_of_row (data_row ''0'' ''Acme U'' ''30-4'' ''28.5'') = Inr (acme_team\<lparr>rank := 0\<rparr>)"
    by (simp add: team_of_data_row scenario_tokens sample_tokens unpack2_def bind_Inr acme_team_def)
  from create_teams_single [OF this]
  have built: "create_teams [data_row ''0'' ''Acme U'' ''30-4'' ''28.5''] =
      Inr [''Acme U'' \<mapsto> acme_team\<lparr>rank := 0\<rparr>]"
    by (simp add: acme_team_name)
  have entry: "[''Acme U'' \<mapsto> acme_team\<lparr>rank := 0\<rparr>] ''Acme U'' = Some (acme_team\<lparr>rank := 0\<rparr>)"
    by simp
  from built_records_invariant [OF built entry] built show ?thesis
    by (simp add: data_row_facts)
qed

text \<open>
  Claim C10. When \<^verbatim>\<open>_create_teams\<close> returns a mapping and no row after the row \<open>r\<close>
  has the name token of \<open>r\<close>, the entry of the mapping under that name is the record
  built from \<open>r\<close>: of several rows with one name, the last in document order decides
  the entry. A dictionary holds one value for a key, so it is the only entry of that
  name.
\<close>

theorem duplicate_names_last_wins:
  assumes "create_teams (pre @ r # post) = Inr teams"
    and "\<forall>r' \<in> set post. r' ! 1 \<noteq> r ! 1"
  shows "\<exists>tm. team_of_row r = Inr tm \<and> name tm = r ! 1 \<and> teams (r ! 1) = Some tm"
proof -
  from assms(1) obtain m where "create_teams_loop Map.empty pre = Inr m"
    and "create_teams_loop m (r # post) = Inr teams"
    by (auto simp: create_teams_def create_teams_loop_append bind_eq_Inr
        simp del: create_teams_loop.simps)
  then obtain tm where tm: "team_of_row r = Inr tm"
    and rest: "create_teams_loop (m(name tm \<mapsto> tm)) post = Inr teams"
    unfolding create_teams_loop_Cons_eq_Inr by blast
  from tm have nm: "name tm = r ! 1" by (rule team_of_row_InrD)
  from rest assms(2) have "teams (r ! 1) = (m(name tm \<mapsto> tm)) (r ! 1)"
    by (rule create_teams_loop_other)
  with nm have "teams (r ! 1) = Some tm" by simp
  with tm nm show ?thesis by blast
qed

theorem duplicate_names_last_wins_witness:
  "\<exists>teams.
     create_teams ([data_row ''1'' ''Acme U'' ''30-4'' ''28.5'']
                   @ data_row ''2'' ''Acme U'' ''31-5'' ''27.0''
                   # [data_row ''1'' ''Other U'' ''30-4'' ''28.5'']) = Inr teams
     \<and> team_of_row (data_row ''1'' ''Acme U'' ''30-4'' ''28.5'') = Inr acme_team
     \<and> teams ''Acme U'' =
          Some (acme_team\<lparr>rank := 2, wins := 31, losses := 5, efficiency := Finite 27.0\<rparr>)"
proof -
  let ?first = "data_row ''1'' ''Acme U'' ''30-4'' ''28.5''"
  let ?last = "data_row ''2'' ''Acme U'' ''31-5'' ''27.0''"
  let ?other = "data_row ''1'' ''Other U'' ''30-4'' ''28.5''"
  let ?team = "acme_team\<lparr>rank := 2, wins := 31, losses := 5, efficiency := Finite 27.0\<rparr>"
  have t1: "team_of_row ?first = Inr acme_team"
    by (rule team_of_acme_row)
  have t2: "team_of_row ?last = Inr ?team"
    by (simp add: team_of_data_row sample_tokens unpack2_def bind_Inr acme_team_def)
  have t3: "team_of_row ?other = Inr (acme_team\<lparr>name := ''Other U''\<rparr>)"
    by (simp add: team_of_data_row scenario_tokens unpack2_def bind_Inr acme_team_def)
  have "\<exists>teams. create_teams ([?first] @ ?last # [?other]) = Inr teams"
    by (simp add: create_teams_def create_teams_loop_Inr t1 t2 t3 del: create_teams_loop.simps(2))
  then obtain teams where built: "create_teams ([?first] @ ?last # [?other]) = Inr teams" ..
  have later: "\<forall>r' \<in> set [?other]. r' ! 1 \<noteq> ?last ! 1"
    by (simp add: data_row_def)
  from duplicate_names_last_wins [OF built later] t2
  have "teams ''Acme U'' = Some ?team"
    by (simp add: data_row_def)
  with built t1 show ?thesis by blast
qed

subsection \<open>get\<close>

lemma feed_row_events:
  "feed p (row_events tokens) =
     Inr (p\<lparr>row := None,
            rows := rows p @ (if length tokens = 22 then [drop 1 tokens] else [])\<rparr>)"
  unfolding row_events_def by (rule feed_row)

text \<open>
  Claim C6. The page is a header row of fewer than 22 tokens followed by the data row
  with the 22 tokens of \<open>acme_row\<close>. Fed to a fresh parser and then to
  \<^verbatim>\<open>_create_teams\<close>, it gives a mapping whose only key is \<^verbatim>\<open>Acme U\<close>, with rank 1,
  conference \<^verbatim>\<open>Big Conf\<close>, 30 wins, 4 losses and the nine statistics of the row. A
  statistic is the number its token denotes.
\<close>

theorem end_to_end_scenario:
  assumes "length header < 22"
  shows "acme_row =
           [''icon'', ''1'', ''Acme U'', ''Big Conf'', ''30-4'', ''28.5'', ''120.3'', emdash,
            ''95.1'', emdash, ''68.2'', emdash, ''0.05'', emdash, ''99.0'', emdash,
            ''110.0'', emdash, ''90.0'', emdash, ''85.0'', emdash]
         \<and> (\<exists>teams. get (row_events header @ row_events acme_row) = Inr teams
              \<and> dom teams = {''Acme U''}
              \<and> teams ''Acme U'' =
                  Some \<lparr>rank = 1, name = ''Acme U'', conference = ''Big Conf'',
                        wins = 30, losses = 4, efficiency = Finite 28.5,
                        offense = Finite 120.3, defense = Finite 95.1, tempo = Finite 68.2,
                        luck = Finite 0.05, opponent_efficiency = Finite 99.0,
                        opponent_offense = Finite 110.0, opponent_defense = Finite 90.0,
                        nonconference_opponent_efficiency = Finite 85.0\<rparr>)"
proof -
  have tokens: "acme_row =
      [''icon'', ''1'', ''Acme U'', ''Big Conf'', ''30-4'', ''28.5'', ''120.3'', emdash,
       ''95.1'', emdash, ''68.2'', emdash, ''0.05'', emdash, ''99.0'', emdash,
       ''110.0'', emdash, ''90.0'', emdash, ''85.0'', emdash]"
    by (simp add: acme_row_def data_row_def)
  have width: "length acme_row = 22"
    by (simp add: acme_row_def data_row_facts)
  have first: "feed KenPomParser_init (row_events header) = Inr KenPomParser_init"
    using assms by (simp add: feed_row_events KenPomParser_init_def)
  have second: "feed KenPomParser_init (row_events acme_row) =
      Inr \<lparr>row = None, rows = [data_row ''1'' ''Acme U'' ''30-4'' ''28.5'']\<rparr>"
    by (simp add: feed_row_events width) (simp add: KenPomParser_init_def acme_row_def)
  have "feed KenPomParser_init (row_events header @ row_events acme_row) =
      Inr \<lparr>row = None, rows = [data_row ''1'' ''Acme U'' ''30-4'' ''28.5'']\<rparr>"
    by (simp only: feed_append first bind_Inr second)
  then have "get (row_events header @ row_events acme_row) =
      create_teams [data_row ''1'' ''Acme U'' ''30-4'' ''28.5'']"
    by (simp add: get_def bind_Inr)
  also have "\<dots> = Inr [''Acme U'' \<mapsto> acme_team]"
    using create_teams_single [OF team_of_acme_row] by (simp add: acme_team_name)
  finally have "get (row_events header @ row_events acme_row) = Inr [''Acme U'' \<mapsto> acme_team]" .
  moreover have "dom [''Acme U'' \<mapsto> acme_team] = {''Acme U''}"
    by simp
  moreover have "[''Acme U'' \<mapsto> acme_team] ''Acme U'' = Some acme_team"
    by simp
  ultimately show ?thesis
    using tokens unfolding acme_team_def by blast
qed

theorem end_to_end_scenario_witness:
  "length [''Rk'', ''Team'', ''Conf'', ''W-L''] < 22
   \<and> (\<exists>teams. get (row_events [''Rk'', ''Team'', ''Conf'', ''W-L''] @ row_events acme_row)
                = Inr teams
        \<and> dom teams = {''Acme U''}
        \<and> map_option rank (teams ''Acme U'') = Some 1
        \<and> map_option wins (teams ''Acme U'') = Some 30
        \<and> map_option losses (teams ''Acme U'') = Some 4
        \<and> map_option efficiency (teams ''Acme U'') = Some (Finite 28.5))"
proof -
  have short: "length [''Rk'', ''Team'', ''Conf'', ''W-L''] < 22"
    by simp
  from end_to_end_scenario [OF short] obtain teams where
    "get (row_events [''Rk'', ''Team'', ''Conf'', ''W-L''] @ row_events acme_row) = Inr teams"
    "dom teams = {''Acme U''}"
    "teams ''Acme U'' =
        Some \<lparr>rank = 1, name = ''Acme U'', conference = ''Big Conf'',
              wins = 30, losses = 4, efficiency = Finite 28.5,
              offense = Finite 120.3, defense = Finite 95.1, tempo = Finite 68.2,
              luck = Finite 0.05, opponent_efficiency = Finite 99.0,
              opponent_offense = Finite 110.0, opponent_defense = Finite 90.0,
              nonconference_opponent_efficiency = Finite 85.0\<rparr>"
    by blast
  then show ?thesis by auto
qed

end
